theory Spec2Isabelle
  imports Complex_Main
begin

section \<open>Python values and exceptions\<close>

text \<open>
  The two modules under study are \<^verbatim>\<open>pymatgen/io/qchem_io/temp_utils.py\<close> (regular-expression
  helpers) and \<^verbatim>\<open>pymatgen/vis/plotters.py\<close> (the spectrum plotter). Every exception a
  function can raise is a value of \<open>py_error\<close>; a function that can raise returns
  \<open>py_error + 'a\<close>, with \<open>Inl\<close> for the exception. Python strings are \<open>string\<close>, one
  \<open>char\<close> per code point below 256. Python floats are modelled as exact reals: the
  properties below are about which operands reach which call, not about rounding.

  \<open>ValueError\<close> carries the message the repository's own code builds.
  \<open>LibraryValueError f\<close> is a ValueError raised inside the library function \<open>f\<close>
  (\<^verbatim>\<open>int\<close>, numpy's addition, matplotlib's \<^verbatim>\<open>plot\<close> and \<^verbatim>\<open>fill_between\<close>): the class of the
  exception is kept, its message is not modelled.

  \<open>OutsideFragment\<close> is not a Python exception: the regular-expression model of
  section \<open>A model of the re module\<close> covers a fragment of the pattern syntax and
  answers \<open>OutsideFragment\<close> for a pattern that uses anything else, and the model of
  matplotlib's drawing calls answers it for a colour given by name, whose validity
  matplotlib reads from tables that are not modelled.
\<close>

datatype py_error =
    NameError string
  | IndexError
  | TypeError
  | AttributeError
  | ZeroDivisionError
  | ValueError string
  | LibraryValueError string
  | ReError
  | OutsideFragment

definition bind_err :: "py_error + 'a \<Rightarrow> ('a \<Rightarrow> py_error + 'b) \<Rightarrow> py_error + 'b" where
  "bind_err m f = (case m of Inl e \<Rightarrow> Inl e | Inr x \<Rightarrow> f x)"

text \<open>A comprehension \<^verbatim>\<open>[f(i) for i in xs]\<close>: left to right, the first exception ends it.\<close>

fun map_err :: "('a \<Rightarrow> py_error + 'b) \<Rightarrow> 'a list \<Rightarrow> py_error + 'b list" where
  "map_err f [] = Inr []"
| "map_err f (x # xs) =
    (case f x of Inl e \<Rightarrow> Inl e
     | Inr y \<Rightarrow> (case map_err f xs of Inl e \<Rightarrow> Inl e | Inr ys \<Rightarrow> Inr (y # ys)))"

section \<open>The interface of the re module\<close>

text \<open>
  \<^verbatim>\<open>re\<close> is Python's standard library, not part of the repository, so the functions of
  \<^verbatim>\<open>temp_utils.py\<close> take it as a parameter: a record of the three operations they use.
  \<^item> \<open>re_compile pat multiline dotall\<close> is \<^verbatim>\<open>re.compile(pat, flags)\<close>; it raises on a
    malformed pattern;
  \<^item> \<open>groupindex p\<close> is \<^verbatim>\<open>p.groupindex\<close>, the named groups of the pattern with their numbers,
    in order of definition;
  \<^item> \<open>finditer p s\<close> is \<^verbatim>\<open>list(p.finditer(s))\<close>.
  A match object carries group 0 (\<open>whole\<close>) and the values of groups 1 to n (\<open>groups\<close>,
  as \<^verbatim>\<open>m.groups()\<close>), \<open>None\<close> for a group that took no part in the match.
\<close>

record re_match =
  whole :: string
  groups :: "string option list"

record 'p re_module =
  re_compile :: "string \<Rightarrow> bool \<Rightarrow> bool \<Rightarrow> py_error + 'p"
  groupindex :: "'p \<Rightarrow> (string \<times> nat) list"
  finditer :: "'p \<Rightarrow> string \<Rightarrow> re_match list"

text \<open>\<^verbatim>\<open>m.group(i)\<close> for a group number \<open>i \<ge> 1\<close>.\<close>

definition group_number :: "re_match \<Rightarrow> nat \<Rightarrow> py_error + string option" where
  "group_number m i =
    (if 1 \<le> i \<and> i \<le> length (groups m) then Inr (groups m ! (i - 1)) else Inl IndexError)"

text \<open>\<^verbatim>\<open>m.group(name)\<close>: IndexError (no such group) for a name the pattern does not define.\<close>

definition group_named :: "'p re_module \<Rightarrow> 'p \<Rightarrow> re_match \<Rightarrow> string \<Rightarrow> py_error + string option" where
  "group_named re p m name =
    (case map_of (groupindex re p) name of
       None \<Rightarrow> Inl IndexError
     | Some i \<Rightarrow> group_number m i)"

text \<open>
  \<^verbatim>\<open>m.groupdict()\<close>: one entry for every named group of the pattern that produced the
  match, \<open>None\<close> for a group that took no part.
\<close>

definition groupdict :: "'p re_module \<Rightarrow> 'p \<Rightarrow> re_match \<Rightarrow> (string \<times> string option) list" where
  "groupdict re p m =
    map (\<lambda>(name, i). (name, if 1 \<le> i \<and> i \<le> length (groups m) then groups m ! (i - 1) else None))
        (groupindex re p)"

section \<open>temp\_utils.py\<close>

subsection \<open>read\_pattern\<close>

text \<open>
  The dict comprehension of line 11 compiles the patterns in the order of
  \<^verbatim>\<open>patterns.items()\<close>; the first pattern that does not compile raises.
\<close>

definition compile_patterns :: "'p re_module \<Rightarrow> (string \<times> string) list \<Rightarrow> py_error + (string \<times> 'p) list" where
  "compile_patterns re patterns =
    map_err (\<lambda>(key, pattern). case re_compile re pattern True True of
                                 Inl e \<Rightarrow> Inl e | Inr p \<Rightarrow> Inr (key, p)) patterns"

text \<open>Whether \<^verbatim>\<open>re.compile(pattern, re.MULTILINE | re.DOTALL)\<close> returns.\<close>

definition compiles :: "'p re_module \<Rightarrow> string \<Rightarrow> bool" where
  "compiles re pattern = (case re_compile re pattern True True of Inl e \<Rightarrow> False | Inr p \<Rightarrow> True)"

text \<open>
  The result of line 12 would be a \<^verbatim>\<open>defaultdict(list)\<close>: a dictionary, kept here in
  insertion order, in which reading a missing key gives the empty list.
  \<open>dd_append d key v\<close> is \<^verbatim>\<open>d[key].append(v)\<close>.
\<close>

type_synonym 'v match_result = "(string \<times> 'v list list) list"

definition dd_get :: "'v match_result \<Rightarrow> string \<Rightarrow> 'v list list" where
  "dd_get d key = (case map_of d key of None \<Rightarrow> [] | Some recs \<Rightarrow> recs)"

definition dd_append :: "'v match_result \<Rightarrow> string \<Rightarrow> 'v list \<Rightarrow> 'v match_result" where
  "dd_append d key v =
    (if key \<in> set (map fst d)
     then map (\<lambda>(k, recs). if k = key then (k, recs @ [v]) else (k, recs)) d
     else d @ [(key, [v])])"

text \<open>
  Lines 14 to 17, the inner loop over the matches of one pattern: one Match Record
  (the post-processed \<^verbatim>\<open>match.groups()\<close>) per match, and a \<^verbatim>\<open>break\<close> after the first
  one when \<^verbatim>\<open>terminate_on_match\<close> is set.
\<close>

fun record_matches :: "(string option \<Rightarrow> py_error + 'v) \<Rightarrow> bool \<Rightarrow> string \<Rightarrow> re_match list \<Rightarrow>
    'v match_result \<Rightarrow> py_error + 'v match_result" where
  "record_matches postprocess terminate_on_match key [] matches = Inr matches"
| "record_matches postprocess terminate_on_match key (m # ms) matches =
    (case map_err postprocess (groups m) of
       Inl e \<Rightarrow> Inl e
     | Inr r \<Rightarrow>
         (if terminate_on_match then Inr (dd_append matches key r)
          else record_matches postprocess terminate_on_match key ms (dd_append matches key r)))"

text \<open>Lines 13 to 18, the outer loop over the compiled patterns.\<close>

fun scan_patterns :: "'p re_module \<Rightarrow> string \<Rightarrow> bool \<Rightarrow> (string option \<Rightarrow> py_error + 'v) \<Rightarrow>
    (string \<times> 'p) list \<Rightarrow> 'v match_result \<Rightarrow> py_error + 'v match_result" where
  "scan_patterns re text_str terminate_on_match postprocess [] matches = Inr matches"
| "scan_patterns re text_str terminate_on_match postprocess ((key, pattern) # rest) matches =
    (case record_matches postprocess terminate_on_match key (finditer re pattern text_str) matches of
       Inl e \<Rightarrow> Inl e
     | Inr matches' \<Rightarrow> scan_patterns re text_str terminate_on_match postprocess rest matches')"

text \<open>
  The module imports \<^verbatim>\<open>re\<close>, \<^verbatim>\<open>logging\<close>, \<^verbatim>\<open>os\<close> and three names of \<^verbatim>\<open>monty\<close>; the name
  \<^verbatim>\<open>collections\<close> of line 12 is bound nowhere, so evaluating
  \<^verbatim>\<open>collections.defaultdict(list)\<close> raises NameError and lines 13 to 18 are never reached.
\<close>

definition collections_defaultdict :: "py_error + 'v match_result" where
  "collections_defaultdict = Inl (NameError ''collections'')"

definition read_pattern :: "'p re_module \<Rightarrow> string \<Rightarrow> (string \<times> string) list \<Rightarrow> bool \<Rightarrow>
    (string option \<Rightarrow> py_error + 'v) \<Rightarrow> py_error + 'v match_result" where
  "read_pattern re text_str patterns terminate_on_match postprocess =
    (case compile_patterns re patterns of
       Inl e \<Rightarrow> Inl e
     | Inr compiled \<Rightarrow>
         (case collections_defaultdict of
            Inl e \<Rightarrow> Inl e
          | Inr matches \<Rightarrow> scan_patterns re text_str terminate_on_match postprocess compiled matches))"

subsection \<open>new\_read\_table\_pattern\<close>

text \<open>
  A row is a list of values when the row pattern has no named group and a dictionary
  otherwise; a table is a list of rows. The function returns one table or the list of
  all tables (\<^verbatim>\<open>retained_data\<close>), bare or under the key \<^verbatim>\<open>attribute_name\<close> of a dictionary.
\<close>

datatype 'v row = RowList "'v list" | RowDict "(string \<times> 'v) list"

datatype 'v retained = OneTable "'v row list" | AllTables "'v row list list"

datatype 'v table_result = Bare "'v retained" | Data string "'v retained"

definition backslash :: char where
  "backslash = CHR 0x5C"

text \<open>Line 61: the header, the rows captured as the group \<^verbatim>\<open>table_body\<close>, the footer.\<close>

definition table_pattern_text :: "string \<Rightarrow> string \<Rightarrow> string \<Rightarrow> string" where
  "table_pattern_text header_pattern row_pattern footer_pattern =
     header_pattern @ ([backslash] @ ''s*(?P<table_body>(?:'') @ row_pattern
       @ ('')+)'' @ [backslash] @ ''s*'') @ footer_pattern"

text \<open>Lines 70 to 74: one row from one match of the row pattern.\<close>

definition process_line :: "'p re_module \<Rightarrow> 'p \<Rightarrow> (string option \<Rightarrow> py_error + 'v) \<Rightarrow> re_match \<Rightarrow> py_error + 'v row" where
  "process_line re rp postprocess ml =
    (let d = groupdict re rp ml
     in if length d > 0
        then bind_err (map_err (\<lambda>(k, v). bind_err (postprocess v) (\<lambda>w. Inr (k, w))) d)
                      (\<lambda>kvs. Inr (RowDict kvs))
        else bind_err (map_err postprocess (groups ml)) (\<lambda>vs. Inr (RowList vs)))"

text \<open>
  Lines 67 to 76: one table from one match of the composite pattern. When the group
  \<^verbatim>\<open>table_body\<close> took no part in the match its value is \<^verbatim>\<open>None\<close> and
  \<^verbatim>\<open>rp.finditer(None)\<close> raises TypeError.
\<close>

definition process_table :: "'p re_module \<Rightarrow> 'p \<Rightarrow> 'p \<Rightarrow> (string option \<Rightarrow> py_error + 'v) \<Rightarrow> re_match \<Rightarrow>
    py_error + 'v row list" where
  "process_table re table_pattern rp postprocess mt =
    bind_err (group_named re table_pattern mt ''table_body'')
      (\<lambda>table_body_text. case table_body_text of
          None \<Rightarrow> Inl TypeError
        | Some body \<Rightarrow> map_err (process_line re rp postprocess) (finditer re rp body))"

text \<open>Python's \<^verbatim>\<open>tables[-1]\<close>: IndexError on the empty list.\<close>

definition last_item :: "'a list \<Rightarrow> py_error + 'a" where
  "last_item xs = (if xs = [] then Inl IndexError else Inr (last xs))"

definition new_read_table_pattern :: "'p re_module \<Rightarrow> string \<Rightarrow> string \<Rightarrow> string \<Rightarrow> string \<Rightarrow>
    (string option \<Rightarrow> py_error + 'v) \<Rightarrow> string option \<Rightarrow> bool \<Rightarrow> py_error + 'v table_result" where
  "new_read_table_pattern re text_str header_pattern row_pattern footer_pattern
      postprocess attribute_name last_one_only =
    bind_err (re_compile re (table_pattern_text header_pattern row_pattern footer_pattern) True True)
      (\<lambda>table_pattern.
    bind_err (re_compile re row_pattern False False)
      (\<lambda>rp.
    bind_err (map_err (process_table re table_pattern rp postprocess)
                      (finditer re table_pattern text_str))
      (\<lambda>tables.
    bind_err (if last_one_only then bind_err (last_item tables) (\<lambda>t. Inr (OneTable t))
              else Inr (AllTables tables))
      (\<lambda>retained_data.
    case attribute_name of
      Some name \<Rightarrow> Inr (Data name retained_data)
    | None \<Rightarrow> Inr (Bare retained_data)))))"

text \<open>
  Observers for the statements below: the result under the optional attribute name, the
  tables of a result, and the shape of a row.
\<close>

definition wrap :: "string option \<Rightarrow> 'v retained \<Rightarrow> 'v table_result" where
  "wrap attribute_name r = (case attribute_name of Some name \<Rightarrow> Data name r | None \<Rightarrow> Bare r)"

definition tables_of :: "'v table_result \<Rightarrow> 'v row list list" where
  "tables_of res = (case (case res of Bare r \<Rightarrow> r | Data name r \<Rightarrow> r) of
                      OneTable t \<Rightarrow> [t] | AllTables ts \<Rightarrow> ts)"

definition is_dict :: "'v row \<Rightarrow> bool" where
  "is_dict row = (case row of RowDict kvs \<Rightarrow> True | RowList vs \<Rightarrow> False)"

text \<open>The two post-processing functions of the specification: \<^verbatim>\<open>str\<close> (the default) and \<^verbatim>\<open>int\<close>.\<close>

definition py_str :: "string option \<Rightarrow> py_error + string" where
  "py_str v = (case v of None \<Rightarrow> Inr ''None'' | Some s \<Rightarrow> Inr s)"

text \<open>
  The whitespace of Python strings among the code points below 256 (\<^verbatim>\<open>str.isspace\<close>, and
  \<^verbatim>\<open>\s\<close> in a pattern), and the decimal digits.
\<close>

definition is_space :: "char \<Rightarrow> bool" where
  "is_space c = (let n = (of_char c :: nat)
                 in (9 \<le> n \<and> n \<le> 13) \<or> (28 \<le> n \<and> n \<le> 32) \<or> n = 133 \<or> n = 160)"

definition is_digit :: "char \<Rightarrow> bool" where
  "is_digit c = (let n = (of_char c :: nat) in 48 \<le> n \<and> n \<le> 57)"

text \<open>
  The whitespace \<^verbatim>\<open>int\<close> skips around a literal: the ASCII whitespace \<^verbatim>\<open>\t \n \v \f \r\<close> and the
  space, and the two non-ASCII spaces below 256, which \<^verbatim>\<open>int\<close> first turns into spaces.
  The separators \<^verbatim>\<open>\x1c\<close> to \<^verbatim>\<open>\x1f\<close> are whitespace of strings and are not skipped.
\<close>

definition is_int_space :: "char \<Rightarrow> bool" where
  "is_int_space c = (let n = (of_char c :: nat)
                     in (9 \<le> n \<and> n \<le> 13) \<or> n = 32 \<or> n = 133 \<or> n = 160)"

definition strip_int_space :: "string \<Rightarrow> string" where
  "strip_int_space s = rev (dropWhile is_int_space (rev (dropWhile is_int_space s)))"

text \<open>
  The digits of a decimal literal: digits, with single underscores allowed between two
  digits.
\<close>

fun digits_ok :: "string \<Rightarrow> bool" where
  "digits_ok [] = False"
| "digits_ok [c] = is_digit c"
| "digits_ok (c # d # cs) =
     (is_digit c \<and> (if d = CHR ''_'' then cs \<noteq> [] \<and> digits_ok cs else digits_ok (d # cs)))"

definition digits_value :: "string \<Rightarrow> int" where
  "digits_value s = foldl (\<lambda>acc c. 10 * acc + (int (of_char c) - 48)) 0 (filter is_digit s)"

text \<open>
  \<^verbatim>\<open>int(v)\<close> on a group value: TypeError on \<^verbatim>\<open>None\<close>, ValueError on a string that is not a
  decimal literal (an optional sign and digits, between optional whitespace).
\<close>

definition py_int :: "string option \<Rightarrow> py_error + int" where
  "py_int v =
    (case v of
       None \<Rightarrow> Inl TypeError
     | Some s \<Rightarrow>
         (let t = strip_int_space s;
              neg = (t \<noteq> [] \<and> hd t = CHR ''-'');
              body = (if t \<noteq> [] \<and> (hd t = CHR ''-'' \<or> hd t = CHR ''+'') then tl t else t)
          in if digits_ok body then Inr (if neg then - digits_value body else digits_value body)
             else Inl (LibraryValueError ''int'')))"

section \<open>A model of the re module\<close>

text \<open>
  A backtracking matcher for a fragment of Python's pattern syntax, used to run the
  functions above on concrete texts: literal characters, \<^verbatim>\<open>.\<close>, the escapes
  \<^verbatim>\<open>\d \D \s \S \a \t \n \v \f \r\<close> and escaped punctuation, the groups \<^verbatim>\<open>(...)\<close>,
  \<^verbatim>\<open>(?:...)\<close> and \<^verbatim>\<open>(?P<name>...)\<close>, the greedy quantifiers \<^verbatim>\<open>* + ?\<close> and alternation.
  Character sets, counted repeats, anchors, lazy and possessive quantifiers, the other
  \<^verbatim>\<open>(?\<close> extensions, the other escapes and a \<^verbatim>\<open>*\<close> or \<^verbatim>\<open>+\<close> over a body that can match the
  empty string are outside the fragment.
\<close>

datatype cclass = Digit | Space

datatype regex = Empty | Lit char | AnyChar | NotNewline | Cls cclass | NCls cclass
  | Seq regex regex | Alt regex regex | Star regex | Group nat regex

definition in_class :: "cclass \<Rightarrow> char \<Rightarrow> bool" where
  "in_class k c = (case k of Digit \<Rightarrow> is_digit c | Space \<Rightarrow> is_space c)"

subsection \<open>Matching\<close>

text \<open>
  \<open>match_re r s g\<close> lists, in the order a backtracking matcher tries them, the ways
  \<open>r\<close> can match a prefix of \<open>s\<close>: the rest of the text and the group values, starting
  from the group values \<open>g\<close>. Group \<open>n\<close> is stored at index \<open>n - 1\<close>. A turn of a
  \<^verbatim>\<open>*\<close> loop goes on to the next turn only if it consumed text; inside the fragment the
  body of a loop cannot match the empty string, so every turn does.
\<close>

function match_re :: "regex \<Rightarrow> string \<Rightarrow> string option list \<Rightarrow> (string \<times> string option list) list" where
  "match_re Empty s g = [(s, g)]"
| "match_re (Lit c) s g = (case s of [] \<Rightarrow> [] | x # xs \<Rightarrow> if x = c then [(xs, g)] else [])"
| "match_re AnyChar s g = (case s of [] \<Rightarrow> [] | x # xs \<Rightarrow> [(xs, g)])"
| "match_re NotNewline s g = (case s of [] \<Rightarrow> [] | x # xs \<Rightarrow> if x = CHR 0x0A then [] else [(xs, g)])"
| "match_re (Cls k) s g = (case s of [] \<Rightarrow> [] | x # xs \<Rightarrow> if in_class k x then [(xs, g)] else [])"
| "match_re (NCls k) s g = (case s of [] \<Rightarrow> [] | x # xs \<Rightarrow> if in_class k x then [] else [(xs, g)])"
| "match_re (Seq r1 r2) s g = concat (map (\<lambda>p. match_re r2 (fst p) (snd p)) (match_re r1 s g))"
| "match_re (Alt r1 r2) s g = match_re r1 s g @ match_re r2 s g"
| "match_re (Star r) s g =
     concat (map (\<lambda>p. if length (fst p) < length s then match_re (Star r) (fst p) (snd p) else [])
                 (match_re r s g)) @ [(s, g)]"
| "match_re (Group n r) s g =
     map (\<lambda>p. (fst p, (snd p)[n - 1 := Some (take (length s - length (fst p)) s)])) (match_re r s g)"
  by pat_completeness auto
termination
  by (relation "measures [\<lambda>(r, s, g). size r, \<lambda>(r, s, g). length s]") auto

text \<open>
  \<^verbatim>\<open>finditer\<close>: the leftmost match, then the search goes on where the match ended. After an
  empty match the next one may start at the same place only if it is not empty
  (\<open>must_advance\<close>).
\<close>

function scan :: "regex \<Rightarrow> nat \<Rightarrow> string \<Rightarrow> bool \<Rightarrow> re_match list" where
  "scan r n s must_advance =
    (case find (\<lambda>p. \<not> must_advance \<or> length (fst p) < length s) (match_re r s (replicate n None)) of
       Some p \<Rightarrow>
         \<lparr>whole = take (length s - length (fst p)) s, groups = snd p\<rparr> #
           (if length (fst p) < length s then scan r n (fst p) False else scan r n s True)
     | None \<Rightarrow> (case s of [] \<Rightarrow> [] | _ # t \<Rightarrow> scan r n t False))"
  by pat_completeness auto
termination
  by (relation "measures [\<lambda>(r, n, s, a). length s, \<lambda>(r, n, s, a). if a then 0 else 1]")
     (auto simp: find_Some_iff)

subsection \<open>Pattern syntax\<close>

text \<open>
  A pattern is read in two passes. The first turns the characters into tokens, with a
  mode for what the previous characters opened (an escape, a parenthesis, a group
  name); the second builds the expression with a stack of open groups. Both raise
  \<^verbatim>\<open>re.error\<close> (\<open>ReError\<close>) where Python does: a bad escape, an unknown extension, a bad or
  repeated group name, nothing to repeat, a multiple repeat, an unbalanced or missing
  parenthesis.
\<close>

datatype gkind = Capture | NonCapture | Named string
datatype quant = QStar | QPlus | QOpt
datatype token = TAtom regex | TQuant quant | TBar | TOpen gkind | TClose
datatype lex_mode = LNormal | LEscape | LOpen | LOpenQ | LOpenQP | LName string

definition is_ascii_alpha :: "char \<Rightarrow> bool" where
  "is_ascii_alpha c = (let n = (of_char c :: nat) in (65 \<le> n \<and> n \<le> 90) \<or> (97 \<le> n \<and> n \<le> 122))"

definition is_identifier :: "string \<Rightarrow> bool" where
  "is_identifier s = (case s of [] \<Rightarrow> False
     | c # cs \<Rightarrow> (is_ascii_alpha c \<or> c = CHR ''_'')
         \<and> list_all (\<lambda>d. is_ascii_alpha d \<or> is_digit d \<or> d = CHR ''_'') cs)"

text \<open>One character outside any escape or parenthesis; \<^verbatim>\<open>.\<close> depends on the flag DOTALL.\<close>

definition lex_normal :: "bool \<Rightarrow> char \<Rightarrow> py_error + (token list \<times> lex_mode)" where
  "lex_normal dotall c =
    (if c = backslash then Inr ([], LEscape)
     else if c = CHR ''('' then Inr ([], LOpen)
     else if c = CHR '')'' then Inr ([TClose], LNormal)
     else if c = CHR ''*'' then Inr ([TQuant QStar], LNormal)
     else if c = CHR ''+'' then Inr ([TQuant QPlus], LNormal)
     else if c = CHR ''?'' then Inr ([TQuant QOpt], LNormal)
     else if c = CHR ''|'' then Inr ([TBar], LNormal)
     else if c = CHR ''.'' then Inr ([TAtom (if dotall then AnyChar else NotNewline)], LNormal)
     else if c \<in> set ''[{^$'' then Inl OutsideFragment
     else Inr ([TAtom (Lit c)], LNormal))"

text \<open>The character after a backslash.\<close>

definition lex_escape :: "char \<Rightarrow> py_error + (token list \<times> lex_mode)" where
  "lex_escape c =
    (if c = CHR ''d'' then Inr ([TAtom (Cls Digit)], LNormal)
     else if c = CHR ''D'' then Inr ([TAtom (NCls Digit)], LNormal)
     else if c = CHR ''s'' then Inr ([TAtom (Cls Space)], LNormal)
     else if c = CHR ''S'' then Inr ([TAtom (NCls Space)], LNormal)
     else if c = CHR ''a'' then Inr ([TAtom (Lit (CHR 0x07))], LNormal)
     else if c = CHR ''t'' then Inr ([TAtom (Lit (CHR 0x09))], LNormal)
     else if c = CHR ''n'' then Inr ([TAtom (Lit (CHR 0x0A))], LNormal)
     else if c = CHR ''v'' then Inr ([TAtom (Lit (CHR 0x0B))], LNormal)
     else if c = CHR ''f'' then Inr ([TAtom (Lit (CHR 0x0C))], LNormal)
     else if c = CHR ''r'' then Inr ([TAtom (Lit (CHR 0x0D))], LNormal)
     else if is_digit c \<or> c \<in> set ''wWbBAZzxuUN'' then Inl OutsideFragment
     else if is_ascii_alpha c then Inl ReError
     else if (of_char c :: nat) \<ge> 128 then Inl OutsideFragment
     else Inr ([TAtom (Lit c)], LNormal))"

definition lex_step :: "bool \<Rightarrow> lex_mode \<Rightarrow> char \<Rightarrow> py_error + (token list \<times> lex_mode)" where
  "lex_step dotall m c =
    (case m of
       LNormal \<Rightarrow> lex_normal dotall c
     | LEscape \<Rightarrow> lex_escape c
     | LOpen \<Rightarrow>
         (if c = CHR ''?'' then Inr ([], LOpenQ)
          else (case lex_normal dotall c of Inl e \<Rightarrow> Inl e
                | Inr (ts, m') \<Rightarrow> Inr (TOpen Capture # ts, m')))
     | LOpenQ \<Rightarrow>
         (if c = CHR '':'' then Inr ([TOpen NonCapture], LNormal)
          else if c = CHR ''P'' then Inr ([], LOpenQP)
          else if c \<in> set ''=!<>#(aiLmsux-'' then Inl OutsideFragment
          else Inl ReError)
     | LOpenQP \<Rightarrow>
         (if c = CHR ''<'' then Inr ([], LName [])
          else if c = CHR ''='' then Inl OutsideFragment
          else Inl ReError)
     | LName acc \<Rightarrow>
         (if c = CHR ''>'' then (if is_identifier acc then Inr ([TOpen (Named acc)], LNormal) else Inl ReError)
          else if (of_char c :: nat) \<ge> 128 then Inl OutsideFragment
          else Inr ([], LName (acc @ [c]))))"

fun lex :: "bool \<Rightarrow> lex_mode \<Rightarrow> string \<Rightarrow> py_error + token list" where
  "lex dotall m [] = (case m of LNormal \<Rightarrow> Inr [] | LOpen \<Rightarrow> Inr [TOpen Capture] | _ \<Rightarrow> Inl ReError)"
| "lex dotall m (c # cs) =
    (case lex_step dotall m c of Inl e \<Rightarrow> Inl e
     | Inr (ts, m') \<Rightarrow> (case lex dotall m' cs of Inl e \<Rightarrow> Inl e | Inr ts' \<Rightarrow> Inr (ts @ ts')))"

text \<open>Whether an expression can match the empty string.\<close>

fun nullable :: "regex \<Rightarrow> bool" where
  "nullable Empty = True"
| "nullable (Seq r1 r2) = (nullable r1 \<and> nullable r2)"
| "nullable (Alt r1 r2) = (nullable r1 \<or> nullable r2)"
| "nullable (Star r) = True"
| "nullable (Group n r) = nullable r"
| "nullable _ = False"

fun mk_seq :: "regex list \<Rightarrow> regex" where
  "mk_seq [] = Empty"
| "mk_seq [r] = r"
| "mk_seq (r # rs) = Seq r (mk_seq rs)"

fun mk_alt :: "regex list \<Rightarrow> regex" where
  "mk_alt [] = Empty"
| "mk_alt [r] = r"
| "mk_alt (r # rs) = Alt r (mk_alt rs)"

text \<open>
  An open group on the stack: its number (\<open>None\<close> when it does not capture), the
  alternatives already closed by \<^verbatim>\<open>|\<close>, and the items of the current alternative, each
  marked when a quantifier has been applied to it. Groups are numbered by their opening
  parenthesis. \<^verbatim>\<open>r+\<close> is \<^verbatim>\<open>r\<close> followed by \<^verbatim>\<open>r*\<close>, \<^verbatim>\<open>r?\<close> is \<^verbatim>\<open>r\<close> or the empty string.
\<close>

type_synonym item = "regex \<times> bool"
type_synonym frame = "nat option \<times> regex list \<times> item list"

definition close_frame :: "frame \<Rightarrow> regex" where
  "close_frame f = (case f of (cap, alts, cur) \<Rightarrow>
     (let r = mk_alt (alts @ [mk_seq (map fst cur)])
      in case cap of None \<Rightarrow> r | Some n \<Rightarrow> Group n r))"

definition quantify :: "quant \<Rightarrow> item list \<Rightarrow> py_error + item list" where
  "quantify q cur =
    (if cur = [] then Inl ReError
     else (case last cur of (r, quantified) \<Rightarrow>
       if quantified then (if q = QStar then Inl ReError else Inl OutsideFragment)
       else if q \<noteq> QOpt \<and> nullable r then Inl OutsideFragment
       else Inr (butlast cur @
              [(case q of QStar \<Rightarrow> Star r | QPlus \<Rightarrow> Seq r (Star r) | QOpt \<Rightarrow> Alt r Empty, True)])))"

type_synonym pattern = "regex \<times> nat \<times> (string \<times> nat) list"

fun parse :: "token list \<Rightarrow> frame list \<Rightarrow> nat \<Rightarrow> (string \<times> nat) list \<Rightarrow> py_error + pattern" where
  "parse [] st n gi = (case st of [f] \<Rightarrow> Inr (close_frame f, n, gi) | _ \<Rightarrow> Inl ReError)"
| "parse (t # ts) st n gi =
    (case st of [] \<Rightarrow> Inl ReError
     | (cap, alts, cur) # rest \<Rightarrow>
        (case t of
           TAtom r \<Rightarrow> parse ts ((cap, alts, cur @ [(r, False)]) # rest) n gi
         | TQuant q \<Rightarrow>
             (case quantify q cur of Inl e \<Rightarrow> Inl e
              | Inr cur' \<Rightarrow> parse ts ((cap, alts, cur') # rest) n gi)
         | TBar \<Rightarrow> parse ts ((cap, alts @ [mk_seq (map fst cur)], []) # rest) n gi
         | TOpen k \<Rightarrow>
             (case k of
                NonCapture \<Rightarrow> parse ts ((None, [], []) # st) n gi
              | Capture \<Rightarrow> parse ts ((Some (n + 1), [], []) # st) (n + 1) gi
              | Named nm \<Rightarrow>
                  (if nm \<in> set (map fst gi) then Inl ReError
                   else parse ts ((Some (n + 1), [], []) # st) (n + 1) (gi @ [(nm, n + 1)])))
         | TClose \<Rightarrow>
             (case rest of [] \<Rightarrow> Inl ReError
              | (cap', alts', cur') # rest' \<Rightarrow>
                  parse ts ((cap', alts', cur' @ [(close_frame (cap, alts, cur), False)]) # rest') n gi)))"

text \<open>
  \<^verbatim>\<open>re.compile\<close>. MULTILINE changes the anchors only, which are outside the fragment.
\<close>

definition compile :: "string \<Rightarrow> bool \<Rightarrow> bool \<Rightarrow> py_error + pattern" where
  "compile pat multiline dotall =
    (case lex dotall LNormal pat of Inl e \<Rightarrow> Inl e
     | Inr ts \<Rightarrow> parse ts [(None, [], [])] 0 [])"

text \<open>A compiled pattern: the expression, the number of groups and \<^verbatim>\<open>groupindex\<close>.\<close>

definition py_re :: "pattern re_module" where
  "py_re = \<lparr>re_compile = compile,
            groupindex = (\<lambda>p. case p of (r, n, gi) \<Rightarrow> gi),
            finditer = (\<lambda>p s. case p of (r, n, gi) \<Rightarrow> scan r n s False)\<rparr>"

section \<open>plotters.py\<close>

subsection \<open>Spectra and the plotter's state\<close>

text \<open>
  A spectrum is any object; \<^verbatim>\<open>add_spectrum\<close> and \<^verbatim>\<open>get_plot\<close> read its attributes \<^verbatim>\<open>x\<close>, \<^verbatim>\<open>y\<close>,
  \<^verbatim>\<open>XLABEL\<close> and \<^verbatim>\<open>YLABEL\<close>, each of which it may lack (\<open>None\<close>), and \<^verbatim>\<open>add_spectrum\<close> prints its
  type (\<open>sp_type\<close> is \<^verbatim>\<open>str(type(spectrum))\<close>). The coordinates are one-dimensional numpy
  arrays. A colour is a string or an RGB triple of the palette.
\<close>

datatype color = ColorStr string | ColorRGB real real real

record spectrum =
  sp_type :: string
  sp_x :: "real list option"
  sp_y :: "real list option"
  XLABEL :: "string option"
  YLABEL :: "string option"

text \<open>
  The fields of \<^verbatim>\<open>SpectrumPlotter\<close>. \<open>spectra\<close> is the dictionary \<^verbatim>\<open>_spectra\<close>, kept in insertion
  order as Python keeps it.
\<close>

record plotter =
  xshift :: real
  yshift :: real
  stack :: bool
  colors_cycle :: "color list"
  colors :: "color list"
  spectra :: "(string \<times> spectrum) list"

text \<open>
  \<^verbatim>\<open>__init__\<close>. The palette is looked up in the package \<^verbatim>\<open>palettable\<close>, outside the repository:
  \<open>mpl_colors\<close> stands for the list that lookup returns.
\<close>

definition init :: "real \<Rightarrow> real \<Rightarrow> bool \<Rightarrow> color list \<Rightarrow> plotter" where
  "init xs ys st mpl_colors =
    \<lparr>xshift = xs, yshift = ys, stack = st, colors_cycle = mpl_colors, colors = [], spectra = []\<rparr>"

text \<open>\<^verbatim>\<open>d[k] = v\<close> on an insertion-ordered dictionary: an existing key keeps its place.\<close>

definition dict_set :: "('k \<times> 'v) list \<Rightarrow> 'k \<Rightarrow> 'v \<Rightarrow> ('k \<times> 'v) list" where
  "dict_set d k v =
    (if k \<in> set (map fst d) then map (\<lambda>(k', v'). if k' = k then (k', v) else (k', v')) d
     else d @ [(k, v)])"

subsection \<open>add\_spectrum\<close>

definition hasattr :: "spectrum \<Rightarrow> string \<Rightarrow> bool" where
  "hasattr sp name =
    (if name = ''x'' then sp_x sp \<noteq> None
     else if name = ''y'' then sp_y sp \<noteq> None
     else if name = ''XLABEL'' then XLABEL sp \<noteq> None
     else if name = ''YLABEL'' then YLABEL sp \<noteq> None
     else False)"

text \<open>The message of line 68; \<^verbatim>\<open>{attribute=}\<close> prints the name and the quoted value.\<close>

definition missing_attribute :: "spectrum \<Rightarrow> string \<Rightarrow> py_error" where
  "missing_attribute sp attribute =
    ValueError (''spectrum of type='' @ sp_type sp @ '' missing required attribute=''
                @ [CHR 0x27] @ attribute @ [CHR 0x27])"

text \<open>The loop of lines 66 to 68 over the characters of \<^verbatim>\<open>"xy"\<close>.\<close>

fun check_attributes :: "spectrum \<Rightarrow> string \<Rightarrow> py_error option" where
  "check_attributes sp [] = None"
| "check_attributes sp (a # rest) =
    (if \<not> hasattr sp [a] then Some (missing_attribute sp [a]) else check_attributes sp rest)"

text \<open>
  Line 70: \<^verbatim>\<open>color or self.colors_cycle[len(self._spectra) % len(self.colors_cycle)]\<close>. \<^verbatim>\<open>None\<close>
  and the empty string are false; the modulus raises on an empty palette.
\<close>

definition truthy :: "color option \<Rightarrow> bool" where
  "truthy c = (case c of None \<Rightarrow> False | Some (ColorStr s) \<Rightarrow> s \<noteq> [] | Some (ColorRGB r g b) \<Rightarrow> True)"

definition choose_color :: "plotter \<Rightarrow> color option \<Rightarrow> py_error + color" where
  "choose_color self color =
    (if truthy color then Inr (the color)
     else if length (colors_cycle self) = 0 then Inl ZeroDivisionError
     else Inr (colors_cycle self ! (length (spectra self) mod length (colors_cycle self))))"

text \<open>
  \<^verbatim>\<open>add_spectrum\<close> returns nothing and mutates the plotter: the model returns the exception
  raised, if any, and the plotter as the call leaves it.
\<close>

definition add_spectrum :: "plotter \<Rightarrow> string \<Rightarrow> spectrum \<Rightarrow> color option \<Rightarrow> py_error option \<times> plotter" where
  "add_spectrum self label spectrum color =
    (case check_attributes spectrum ''xy'' of
       Some e \<Rightarrow> (Some e, self)
     | None \<Rightarrow>
         (let self1 = self\<lparr>spectra := dict_set (spectra self) label spectrum\<rparr>
          in case choose_color self1 color of
               Inl e \<Rightarrow> (Some e, self1)
             | Inr c \<Rightarrow> (None, self1\<lparr>colors := colors self1 @ [c]\<rparr>)))"

text \<open>A sequence of calls, each \<open>(label, spectrum, color)\<close>; the first exception ends it.\<close>

fun add_all :: "plotter \<Rightarrow> (string \<times> spectrum \<times> color option) list \<Rightarrow> py_error option \<times> plotter" where
  "add_all self [] = (None, self)"
| "add_all self ((label, spectrum, color) # calls) =
    (case add_spectrum self label spectrum color of
       (Some e, self') \<Rightarrow> (Some e, self')
     | (None, self') \<Rightarrow> add_all self' calls)"

text \<open>The spectrum of the last call with a given label.\<close>

fun last_added :: "(string \<times> spectrum \<times> color option) list \<Rightarrow> string \<Rightarrow> spectrum option" where
  "last_added [] label = None"
| "last_added ((l, sp, c) # calls) label =
    (case last_added calls label of
       Some sp' \<Rightarrow> Some sp'
     | None \<Rightarrow> if l = label then Some sp else None)"

subsection \<open>get\_plot\<close>

text \<open>
  What \<^verbatim>\<open>get_plot\<close> asks matplotlib to draw: one artist per call of \<^verbatim>\<open>ax.plot\<close> or
  \<^verbatim>\<open>ax.fill_between\<close> that returns, with the arguments of the call, and the axis labels
  and limits set. The baseline of a filled region is the float \<^verbatim>\<open>0.0\<close> at first and an
  array afterwards.
\<close>

datatype yvalue = Scalar real | Array "real list"

datatype artist =
    Line "real list" "real list" color string real
  | FillBetween "real list" yvalue "real list" color string real

record axes =
  artists :: "artist list"
  xlabel :: "string option"
  ylabel :: "string option"
  xlim :: "(real \<times> real) option"
  ylim :: "(real \<times> real) option"

text \<open>\<^verbatim>\<open>pretty_plot(12, 8)\<close>: fresh axes, nothing drawn.\<close>

definition pretty_plot :: axes where
  "pretty_plot = \<lparr>artists = [], xlabel = None, ylabel = None, xlim = None, ylim = None\<rparr>"

text \<open>
  numpy's \<^verbatim>\<open>+\<close> on floats and one-dimensional arrays: a float or an array of length one is
  broadcast; two arrays of other, different lengths raise ValueError.
\<close>

definition np_add :: "yvalue \<Rightarrow> yvalue \<Rightarrow> py_error + yvalue" where
  "np_add a b =
    (case a of
       Scalar u \<Rightarrow> (case b of Scalar v \<Rightarrow> Inr (Scalar (u + v))
                            | Array vs \<Rightarrow> Inr (Array (map (\<lambda>v. u + v) vs)))
     | Array us \<Rightarrow>
        (case b of
           Scalar v \<Rightarrow> Inr (Array (map (\<lambda>u. u + v) us))
         | Array vs \<Rightarrow>
            (if length us = length vs then Inr (Array (map (\<lambda>(u, v). u + v) (zip us vs)))
             else if length us = 1 then Inr (Array (map (\<lambda>v. hd us + v) vs))
             else if length vs = 1 then Inr (Array (map (\<lambda>u. u + hd vs) us))
             else Inl (LibraryValueError ''numpy.add''))))"

definition getattr :: "'a option \<Rightarrow> py_error + 'a" where
  "getattr a = (case a of None \<Rightarrow> Inl AttributeError | Some v \<Rightarrow> Inr v)"

definition color_at :: "plotter \<Rightarrow> nat \<Rightarrow> py_error + color" where
  "color_at self idx = (if idx < length (colors self) then Inr (colors self ! idx) else Inl IndexError)"

text \<open>
  numpy's broadcasting of one-dimensional arrays of the given lengths: the lengths other
  than one must all be equal.
\<close>

definition broadcastable :: "nat list \<Rightarrow> bool" where
  "broadcastable ns =
    (case filter (\<lambda>n. n \<noteq> 1) ns of [] \<Rightarrow> True | m # ms \<Rightarrow> list_all (\<lambda>n. n = m) ms)"

text \<open>
  The colour of a drawing call. matplotlib accepts an RGB triple when its components lie
  between 0 and 1 and raises ValueError otherwise.
\<close>

definition rgb_color :: "color \<Rightarrow> bool" where
  "rgb_color c = (case c of
      ColorRGB r g b \<Rightarrow> 0 \<le> r \<and> r \<le> 1 \<and> 0 \<le> g \<and> g \<le> 1 \<and> 0 \<le> b \<and> b \<le> 1
    | ColorStr s \<Rightarrow> False)"

definition check_color :: "string \<Rightarrow> color \<Rightarrow> py_error + unit" where
  "check_color f c = (case c of
      ColorRGB r g b \<Rightarrow> if rgb_color c then Inr () else Inl (LibraryValueError f)
    | ColorStr s \<Rightarrow> Inl OutsideFragment)"

text \<open>
  \<^verbatim>\<open>ax.plot(x, y, color=..., label=..., linewidth=...)\<close>: matplotlib raises ValueError
  unless \<^verbatim>\<open>x\<close> and \<^verbatim>\<open>y\<close> have the same size, then looks at the colour, and adds a line.
\<close>

definition ax_plot :: "axes \<Rightarrow> real list \<Rightarrow> real list \<Rightarrow> color \<Rightarrow> string \<Rightarrow> real \<Rightarrow> py_error + axes" where
  "ax_plot ax x y c label linewidth =
    (if length x \<noteq> length y then Inl (LibraryValueError ''Axes.plot'')
     else bind_err (check_color ''Axes.plot'' c)
            (\<lambda>u. Inr (ax\<lparr>artists := artists ax @ [Line x y c label linewidth]\<rparr>)))"

text \<open>
  \<^verbatim>\<open>ax.fill_between(x, y1, y2, color=..., label=..., linewidth=...)\<close>: matplotlib broadcasts
  \<^verbatim>\<open>x\<close>, \<^verbatim>\<open>y1\<close> and \<^verbatim>\<open>y2\<close> against each other and raises ValueError when their sizes do not
  allow it, then looks at the colour, and adds a filled region. A float takes any size.
\<close>

definition ax_fill_between :: "axes \<Rightarrow> real list \<Rightarrow> yvalue \<Rightarrow> real list \<Rightarrow> color \<Rightarrow> string \<Rightarrow> real \<Rightarrow> py_error + axes" where
  "ax_fill_between ax x y1 y2 c label linewidth =
    (if \<not> broadcastable (length x # (case y1 of Scalar v \<Rightarrow> [] | Array vs \<Rightarrow> [length vs]) @ [length y2])
     then Inl (LibraryValueError ''Axes.fill_between'')
     else bind_err (check_color ''Axes.fill_between'' c)
            (\<lambda>u. Inr (ax\<lparr>artists := artists ax @ [FillBetween x y1 y2 c label linewidth]\<rparr>)))"

text \<open>
  One turn of the loop of lines 95 to 115, for the entry \<open>(key, sp)\<close> at position \<open>idx\<close>:
  the state is the axes and the running baseline \<^verbatim>\<open>base\<close>.
\<close>

definition draw_entry :: "plotter \<Rightarrow> nat \<Rightarrow> string \<Rightarrow> spectrum \<Rightarrow> axes \<times> yvalue \<Rightarrow> py_error + (axes \<times> yvalue)" where
  "draw_entry self idx key sp st =
    (case st of (ax, base) \<Rightarrow>
      bind_err (getattr (sp_x sp)) (\<lambda>x.
      bind_err (getattr (sp_y sp)) (\<lambda>y.
      let shifted = map (\<lambda>v. v + yshift self * real idx) y in
      bind_err (color_at self idx) (\<lambda>c.
      bind_err
        (if \<not> stack self
         then bind_err (ax_plot ax x shifted c key 3) (\<lambda>ax'. Inr (ax', base))
         else bind_err (ax_fill_between ax x base shifted c key 3) (\<lambda>ax'.
              bind_err (np_add (Array y) base) (\<lambda>base'. Inr (ax', base'))))
        (\<lambda>(ax1, base1).
      bind_err (getattr (XLABEL sp)) (\<lambda>xl.
      bind_err (getattr (YLABEL sp)) (\<lambda>yl.
        Inr (ax1\<lparr>xlabel := Some xl, ylabel := Some yl\<rparr>, base1))))))))"

fun draw_entries :: "plotter \<Rightarrow> nat \<Rightarrow> (string \<times> spectrum) list \<Rightarrow> axes \<times> yvalue \<Rightarrow> py_error + (axes \<times> yvalue)" where
  "draw_entries self idx [] st = Inr st"
| "draw_entries self idx ((key, sp) # rest) st =
    bind_err (draw_entry self idx key sp st) (draw_entries self (Suc idx) rest)"

text \<open>
  \<^verbatim>\<open>get_plot\<close>. The legend and layout calls that follow the loop draw no spectrum and are
  left to matplotlib.
\<close>

definition get_plot :: "plotter \<Rightarrow> (real \<times> real) option \<Rightarrow> (real \<times> real) option \<Rightarrow> py_error + axes" where
  "get_plot self xlim_arg ylim_arg =
    bind_err (draw_entries self 0 (spectra self) (pretty_plot, Scalar 0)) (\<lambda>(ax, base).
      let ax1 = (if xlim_arg \<noteq> None then ax\<lparr>xlim := xlim_arg\<rparr> else ax);
          ax2 = (if ylim_arg \<noteq> None then ax1\<lparr>ylim := ylim_arg\<rparr> else ax1)
      in Inr ax2)"

section \<open>Properties of new\_read\_table\_pattern\<close>

subsection \<open>Comprehensions that can raise\<close>

lemma map_err_length: "map_err f xs = Inr ys \<Longrightarrow> length ys = length xs"
  by (induction xs arbitrary: ys) (auto split: sum.splits)

lemma map_err_set:
  "map_err f xs = Inr ys \<Longrightarrow> y \<in> set ys \<Longrightarrow> \<exists>x \<in> set xs. f x = Inr y"
proof (induction xs arbitrary: ys)
  case Nil
  then show ?case by simp
next
  case (Cons x xs)
  from Cons.prems(1) obtain z zs where z: "f x = Inr z" and zs: "map_err f xs = Inr zs" and ys: "ys = z # zs"
    by (auto split: sum.splits)
  show ?case
  proof (cases "y = z")
    case True
    with z show ?thesis by auto
  next
    case False
    with Cons.prems(2) ys have "y \<in> set zs" by simp
    from Cons.IH[OF zs this] show ?thesis by auto
  qed
qed

subsection \<open>The function once both patterns compile\<close>

lemma new_read_table_pattern_unfold:
  assumes "re_compile re (table_pattern_text h r f) True True = Inr tp"
      and "re_compile re r False False = Inr rp"
  shows "new_read_table_pattern re text h r f pp an lo =
     (case map_err (process_table re tp rp pp) (finditer re tp text) of
        Inl e \<Rightarrow> Inl e
      | Inr tables \<Rightarrow>
          if lo then (if tables = [] then Inl IndexError else Inr (wrap an (OneTable (last tables))))
          else Inr (wrap an (AllTables tables)))"
  using assms
  by (simp add: new_read_table_pattern_def bind_err_def last_item_def wrap_def
           split: sum.splits option.splits)

subsection \<open>The literal scenario\<close>

text \<open>
  C1. The scenario of the specification: on the text \<^verbatim>\<open>"BEGIN\nA 1\nA 2\nEND"\<close> with header
  \<^verbatim>\<open>BEGIN\n\<close>, row \<^verbatim>\<open>A (\d+)\n\<close>, footer \<^verbatim>\<open>END\<close>, post-processing \<^verbatim>\<open>int\<close>, no attribute name
  and \<^verbatim>\<open>last_one_only=True\<close>, the function returns the single table \<^verbatim>\<open>[[1], [2]]\<close>: two rows
  in order of appearance, each the one-element list of the converted group.
\<close>

theorem scenario_begin_end:
  "new_read_table_pattern py_re ''BEGIN\<newline>A 1\<newline>A 2\<newline>END''
     (''BEGIN'' @ [backslash] @ ''n'')
     (''A ('' @ [backslash] @ ''d+)'' @ [backslash] @ ''n'')
     ''END'' py_int None True
   = Inr (Bare (OneTable [RowList [1], RowList [2]]))"
  by code_simp

subsection \<open>No table in the text\<close>

text \<open>
  C4. When both patterns compile and the composite pattern has no match in the text,
  the call with \<^verbatim>\<open>last_one_only=False\<close> returns the empty list of tables (under the attribute
  name when one is given), and the call with \<^verbatim>\<open>last_one_only=True\<close> raises IndexError: the
  read of the last element of the empty list is not guarded.
\<close>

theorem no_table_found:
  assumes "re_compile re (table_pattern_text h r f) True True = Inr tp"
      and "re_compile re r False False = Inr rp"
      and "finditer re tp text = []"
  shows "new_read_table_pattern re text h r f pp None False = Inr (Bare (AllTables []))
       \<and> new_read_table_pattern re text h r f pp (Some name) False = Inr (Data name (AllTables []))
       \<and> new_read_table_pattern re text h r f pp an True = Inl IndexError"
  using assms(3) by (simp add: new_read_table_pattern_unfold[OF assms(1,2)] wrap_def)

theorem no_table_found_witness:
  "finditer py_re (projr (re_compile py_re
       (table_pattern_text (''BEGIN'' @ [backslash] @ ''n'') (''A ('' @ [backslash] @ ''d+)'' @ [backslash] @ ''n'') ''END'')
       True True)) ''no table here'' = []
   \<and> new_read_table_pattern py_re ''no table here'' (''BEGIN'' @ [backslash] @ ''n'')
        (''A ('' @ [backslash] @ ''d+)'' @ [backslash] @ ''n'') ''END'' py_int None False
      = Inr (Bare (AllTables []))
   \<and> new_read_table_pattern py_re ''no table here'' (''BEGIN'' @ [backslash] @ ''n'')
        (''A ('' @ [backslash] @ ''d+)'' @ [backslash] @ ''n'') ''END'' py_int (Some ''efg'') False
      = Inr (Data ''efg'' (AllTables []))
   \<and> new_read_table_pattern py_re ''no table here'' (''BEGIN'' @ [backslash] @ ''n'')
        (''A ('' @ [backslash] @ ''d+)'' @ [backslash] @ ''n'') ''END'' py_int None True
      = Inl IndexError"
proof -
  let ?h = "''BEGIN'' @ [backslash] @ ''n''"
  let ?r = "''A ('' @ [backslash] @ ''d+)'' @ [backslash] @ ''n''"
  let ?tp = "projr (re_compile py_re (table_pattern_text ?h ?r ''END'') True True)"
  let ?rp = "projr (re_compile py_re ?r False False)"
  have c1: "re_compile py_re (table_pattern_text ?h ?r ''END'') True True = Inr ?tp"
    by code_simp
  have c2: "re_compile py_re ?r False False = Inr ?rp"
    by code_simp
  have m: "finditer py_re ?tp ''no table here'' = []"
    by code_simp
  from no_table_found[OF c1 c2 m, where pp = py_int and name = "''efg''" and an = None] m
  show ?thesis by simp
qed

subsection \<open>The last table\<close>

text \<open>
  C5. When the composite pattern has at least one match, the two calls that differ only
  in \<^verbatim>\<open>last_one_only\<close> either raise the same exception, or the call with \<^verbatim>\<open>False\<close> returns a
  non-empty list of tables, one per match, and the call with \<^verbatim>\<open>True\<close> returns its last
  element.
\<close>

theorem last_one_only_is_last:
  assumes "re_compile re (table_pattern_text h r f) True True = Inr tp"
      and "finditer re tp text \<noteq> []"
  shows "(\<exists>e. new_read_table_pattern re text h r f pp an False = Inl e
            \<and> new_read_table_pattern re text h r f pp an True = Inl e)
       \<or> (\<exists>ts. ts \<noteq> [] \<and> length ts = length (finditer re tp text)
            \<and> new_read_table_pattern re text h r f pp an False = Inr (wrap an (AllTables ts))
            \<and> new_read_table_pattern re text h r f pp an True = Inr (wrap an (OneTable (last ts))))"
proof (cases "re_compile re r False False")
  case (Inl e)
  then show ?thesis
    using assms(1) by (simp add: new_read_table_pattern_def bind_err_def)
next
  case (Inr rp)
  note unf = new_read_table_pattern_unfold[OF assms(1) Inr]
  show ?thesis
  proof (cases "map_err (process_table re tp rp pp) (finditer re tp text)")
    case (Inl e)
    then show ?thesis by (simp add: unf)
  next
    case (Inr ts)
    from map_err_length[OF Inr] assms(2) have "ts \<noteq> []" "length ts = length (finditer re tp text)"
      by auto
    then show ?thesis using Inr by (auto simp: unf)
  qed
qed

theorem last_one_only_is_last_witness:
  "finditer py_re (projr (re_compile py_re
       (table_pattern_text (''BEGIN'' @ [backslash] @ ''n'') (''A ('' @ [backslash] @ ''d+)'' @ [backslash] @ ''n'') ''END'')
       True True)) ''BEGIN\<newline>A 1\<newline>END BEGIN\<newline>A 2\<newline>A 3\<newline>END'' \<noteq> []
   \<and> new_read_table_pattern py_re ''BEGIN\<newline>A 1\<newline>END BEGIN\<newline>A 2\<newline>A 3\<newline>END'' (''BEGIN'' @ [backslash] @ ''n'')
        (''A ('' @ [backslash] @ ''d+)'' @ [backslash] @ ''n'') ''END'' py_int None False
      = Inr (Bare (AllTables [[RowList [1]], [RowList [2], RowList [3]]]))
   \<and> new_read_table_pattern py_re ''BEGIN\<newline>A 1\<newline>END BEGIN\<newline>A 2\<newline>A 3\<newline>END'' (''BEGIN'' @ [backslash] @ ''n'')
        (''A ('' @ [backslash] @ ''d+)'' @ [backslash] @ ''n'') ''END'' py_int None True
      = Inr (Bare (OneTable [RowList [2], RowList [3]]))"
proof -
  let ?h = "''BEGIN'' @ [backslash] @ ''n''"
  let ?r = "''A ('' @ [backslash] @ ''d+)'' @ [backslash] @ ''n''"
  let ?t = "''BEGIN\<newline>A 1\<newline>END BEGIN\<newline>A 2\<newline>A 3\<newline>END''"
  let ?tp = "projr (re_compile py_re (table_pattern_text ?h ?r ''END'') True True)"
  have c1: "re_compile py_re (table_pattern_text ?h ?r ''END'') True True = Inr ?tp"
    by code_simp
  have m: "finditer py_re ?tp ?t \<noteq> []"
    by code_simp
  have f: "new_read_table_pattern py_re ?t ?h ?r ''END'' py_int None False
      = Inr (Bare (AllTables [[RowList [1]], [RowList [2], RowList [3]]]))"
    by code_simp
  from last_one_only_is_last[OF c1 m, where pp = py_int and an = None] f m
  show ?thesis by (auto simp: wrap_def)
qed

subsection \<open>The shape of the rows\<close>

lemma process_line_shape:
  "process_line re rp pp ml = Inr row \<Longrightarrow> is_dict row = (groupindex re rp \<noteq> [])"
  by (auto simp: process_line_def groupdict_def bind_err_def is_dict_def Let_def
           split: if_splits sum.splits)

lemma process_table_shape:
  assumes "process_table re tp rp pp mt = Inr t" and "row \<in> set t"
  shows "is_dict row = (groupindex re rp \<noteq> [])"
proof -
  from assms(1) obtain body where "map_err (process_line re rp pp) (finditer re rp body) = Inr t"
    by (auto simp: process_table_def bind_err_def split: sum.splits option.splits)
  from map_err_set[OF this assms(2)] obtain ml where "process_line re rp pp ml = Inr row"
    by blast
  then show ?thesis by (rule process_line_shape)
qed

text \<open>
  C6. In the result of one call every row of every table has the same shape, decided by
  the row pattern alone: a dictionary when the pattern defines a named group
  (\<^verbatim>\<open>groupindex\<close> is not empty), a list of the positional group values when it does not.
\<close>

theorem row_shape_uniform:
  assumes "re_compile re r False False = Inr rp"
      and "new_read_table_pattern re text h r f pp an lo = Inr res"
  shows "\<forall>t \<in> set (tables_of res). \<forall>row \<in> set t. is_dict row = (groupindex re rp \<noteq> [])"
proof (cases "re_compile re (table_pattern_text h r f) True True")
  case (Inl e)
  then show ?thesis using assms(2) by (simp add: new_read_table_pattern_def bind_err_def)
next
  case (Inr tp)
  note unf = new_read_table_pattern_unfold[OF Inr assms(1)]
  from assms(2) obtain ts where ts: "map_err (process_table re tp rp pp) (finditer re tp text) = Inr ts"
    and sub: "set (tables_of res) \<subseteq> set ts"
    by (auto simp: unf tables_of_def wrap_def split: sum.splits if_splits option.splits)
  show ?thesis
  proof (intro ballI)
    fix t row assume t: "t \<in> set (tables_of res)" and row: "row \<in> set t"
    from t sub have "t \<in> set ts" by blast
    from map_err_set[OF ts this] obtain mt where "process_table re tp rp pp mt = Inr t"
      by blast
    from process_table_shape[OF this row] show "is_dict row = (groupindex re rp \<noteq> [])" .
  qed
qed

theorem row_shape_uniform_witness:
  "new_read_table_pattern py_re ''BEGIN\<newline>A 1\<newline>A 2\<newline>END'' (''BEGIN'' @ [backslash] @ ''n'')
        (''A (?P<n>'' @ [backslash] @ ''d+)'' @ [backslash] @ ''n'') ''END'' py_int None False
      = Inr (Bare (AllTables [[RowDict [(''n'', 1)], RowDict [(''n'', 2)]]]))
   \<and> groupindex py_re (projr (re_compile py_re (''A (?P<n>'' @ [backslash] @ ''d+)'' @ [backslash] @ ''n'') False False)) = [(''n'', 1)]
   \<and> is_dict (RowDict [(''n'', 1::int)]) \<and> is_dict (RowDict [(''n'', 2::int)])"
proof -
  let ?h = "''BEGIN'' @ [backslash] @ ''n''"
  let ?r = "''A (?P<n>'' @ [backslash] @ ''d+)'' @ [backslash] @ ''n''"
  let ?t = "''BEGIN\<newline>A 1\<newline>A 2\<newline>END''"
  let ?rp = "projr (re_compile py_re ?r False False)"
  have c2: "re_compile py_re ?r False False = Inr ?rp"
    by code_simp
  have g: "groupindex py_re ?rp = [(''n'', 1)]"
    by code_simp
  have f: "new_read_table_pattern py_re ?t ?h ?r ''END'' py_int None False
      = Inr (Bare (AllTables [[RowDict [(''n'', 1)], RowDict [(''n'', 2)]]]))"
    by code_simp
  from row_shape_uniform[OF c2 f] g f
  show ?thesis by (simp add: tables_of_def)
qed

section \<open>Properties of read\_pattern\<close>

subsection \<open>Compiling the patterns\<close>

lemma compile_patterns_ok:
  "list_all (\<lambda>kp. compiles re (snd kp)) patterns \<Longrightarrow> \<exists>compiled. compile_patterns re patterns = Inr compiled"
  unfolding compile_patterns_def
  by (induction patterns) (auto simp: compiles_def split: sum.splits)

lemma compile_patterns_first_failure:
  "\<not> list_all (\<lambda>kp. compiles re (snd kp)) patterns \<Longrightarrow>
   \<exists>before key pat after e. patterns = before @ (key, pat) # after
      \<and> list_all (\<lambda>kp. compiles re (snd kp)) before
      \<and> re_compile re pat True True = Inl e
      \<and> compile_patterns re patterns = Inl e"
proof (induction patterns)
  case Nil
  then show ?case by simp
next
  case (Cons kp patterns)
  obtain key pat where kp: "kp = (key, pat)" by (cases kp)
  show ?case
  proof (cases "re_compile re pat True True")
    case (Inl e)
    have "kp # patterns = [] @ (key, pat) # patterns" using kp by simp
    moreover have "compile_patterns re (kp # patterns) = Inl e"
      using Inl kp by (simp add: compile_patterns_def)
    moreover have "list_all (\<lambda>kp. compiles re (snd kp)) []" by simp
    ultimately show ?thesis using Inl by blast
  next
    case (Inr c)
    then have ok: "compiles re (snd kp)" using kp by (simp add: compiles_def)
    with Cons.prems have "\<not> list_all (\<lambda>kp. compiles re (snd kp)) patterns" by simp
    from Cons.IH[OF this] obtain before key' pat' after e where
      split: "patterns = before @ (key', pat') # after"
      and bef: "list_all (\<lambda>kp. compiles re (snd kp)) before"
      and err: "re_compile re pat' True True = Inl e"
      and res: "compile_patterns re patterns = Inl e"
      by blast
    have "kp # patterns = (kp # before) @ (key', pat') # after" using split by simp
    moreover have "list_all (\<lambda>kp. compiles re (snd kp)) (kp # before)" using ok bef by simp
    moreover have "compile_patterns re (kp # patterns) = Inl e"
      using res Inr kp by (simp add: compile_patterns_def)
    ultimately show ?thesis using err by blast
  qed
qed

subsection \<open>The call never returns\<close>

text \<open>
  C2, as the code has it. Every call raises, and the exception depends on the patterns
  alone, not on the text, the flag or the post-processing function: NameError for the
  unbound name \<^verbatim>\<open>collections\<close> when every pattern compiles, and otherwise the error of the
  first pattern, in the order of the mapping, that does not compile, since line 11
  compiles the patterns before line 12 is reached.
\<close>

theorem read_pattern_never_returns:
  "\<exists>e. (\<forall>text_str terminate_on_match postprocess.
          read_pattern re text_str patterns terminate_on_match
            (postprocess :: string option \<Rightarrow> py_error + 'v) = Inl e)
     \<and> (if list_all (\<lambda>kp. compiles re (snd kp)) patterns
        then e = NameError ''collections''
        else \<exists>before key pat after. patterns = before @ (key, pat) # after
               \<and> list_all (\<lambda>kp. compiles re (snd kp)) before
               \<and> re_compile re pat True True = Inl e)"
proof (cases "list_all (\<lambda>kp. compiles re (snd kp)) patterns")
  case True
  from compile_patterns_ok[OF True] obtain compiled where "compile_patterns re patterns = Inr compiled"
    by blast
  then have "\<forall>text_str terminate_on_match (postprocess :: string option \<Rightarrow> py_error + 'v).
      read_pattern re text_str patterns terminate_on_match postprocess = Inl (NameError ''collections'')"
    by (simp add: read_pattern_def collections_defaultdict_def)
  with True show ?thesis by simp
next
  case False
  from compile_patterns_first_failure[OF False] obtain before key pat after e where
    split: "patterns = before @ (key, pat) # after"
    and bef: "list_all (\<lambda>kp. compiles re (snd kp)) before"
    and err: "re_compile re pat True True = Inl e"
    and res: "compile_patterns re patterns = Inl e"
    by blast
  from res have "\<forall>text_str terminate_on_match (postprocess :: string option \<Rightarrow> py_error + 'v).
      read_pattern re text_str patterns terminate_on_match postprocess = Inl e"
    by (simp add: read_pattern_def)
  with False split bef err show ?thesis by auto
qed

theorem read_pattern_never_returns_witness:
  "list_all (\<lambda>kp. compiles py_re (snd kp)) [(''energy'', ''E=('' @ [backslash] @ ''d+)'')]
   \<and> read_pattern py_re ''E=1 E=2'' [(''energy'', ''E=('' @ [backslash] @ ''d+)'')] False py_int
       = Inl (NameError ''collections'')"
proof -
  have ok: "list_all (\<lambda>kp. compiles py_re (snd kp)) [(''energy'', ''E=('' @ [backslash] @ ''d+)'')]"
    by code_simp
  from read_pattern_never_returns[of py_re "[(''energy'', ''E=('' @ [backslash] @ ''d+)'')]", where 'v = int]
  obtain e where "read_pattern py_re ''E=1 E=2'' [(''energy'', ''E=('' @ [backslash] @ ''d+)'')] False py_int = Inl e"
    and "e = NameError ''collections''"
    using ok by auto
  with ok show ?thesis by simp
qed

text \<open>
  C2 as stated, NameError for every pattern mapping, fails on a mapping with a pattern
  that does not compile: \<^verbatim>\<open>E=(\<close> has an unterminated group and the call raises
  \<^verbatim>\<open>re.error\<close>.
\<close>

theorem read_pattern_compile_error_first:
  "read_pattern py_re ''E=1 E=2'' [(''energy'', ''E=('')] False py_str = Inl ReError"
  by code_simp

subsection \<open>The loop behind the unbound name\<close>

text \<open>
  Lines 13 to 18, had line 12 produced the empty mapping: with \<^verbatim>\<open>terminate_on_match\<close> set
  and distinct pattern names, no name gets more than one Match Record.
\<close>

lemma record_matches_terminate:
  "record_matches pp True key ms matches = Inr res \<Longrightarrow> key \<notin> set (map fst matches) \<Longrightarrow>
   res = matches \<or> (\<exists>r. res = matches @ [(key, [r])])"
  by (cases ms) (auto simp: dd_append_def split: sum.splits)

lemma scan_patterns_at_most_one:
  "scan_patterns re text_str True pp compiled matches = Inr res \<Longrightarrow>
   distinct (map fst compiled) \<Longrightarrow>
   set (map fst compiled) \<inter> set (map fst matches) = {} \<Longrightarrow>
   \<forall>kr \<in> set matches. length (snd kr) \<le> 1 \<Longrightarrow>
   \<forall>kr \<in> set res. length (snd kr) \<le> 1"
proof (induction compiled arbitrary: matches)
  case Nil
  then show ?case by simp
next
  case (Cons kp compiled)
  obtain key pattern where kp: "kp = (key, pattern)" by (cases kp)
  from Cons.prems(1) kp obtain matches' where
    step: "record_matches pp True key (finditer re pattern text_str) matches = Inr matches'"
    and rest: "scan_patterns re text_str True pp compiled matches' = Inr res"
    by (auto split: sum.splits)
  from Cons.prems(3) kp have fresh: "key \<notin> set (map fst matches)" by auto
  from record_matches_terminate[OF step fresh]
  have shape: "matches' = matches \<or> (\<exists>r. matches' = matches @ [(key, [r])])" .
  have d: "distinct (map fst compiled)" using Cons.prems(2) by simp
  have knew: "key \<notin> set (map fst compiled)" using Cons.prems(2) kp by simp
  have disj0: "set (map fst compiled) \<inter> set (map fst matches) = {}"
    using Cons.prems(3) by auto
  have disj: "set (map fst compiled) \<inter> set (map fst matches') = {}"
  proof (cases "matches' = matches")
    case True
    with disj0 show ?thesis by simp
  next
    case False
    with shape obtain r where "matches' = matches @ [(key, [r])]" by blast
    then have "set (map fst matches') = insert key (set (map fst matches))" by simp
    then show ?thesis using disj0 knew by simp
  qed
  have small: "\<forall>kr \<in> set matches'. length (snd kr) \<le> 1"
    using shape Cons.prems(4) by auto
  from Cons.IH[OF rest d disj small] show ?case .
qed

text \<open>
  C7. With \<^verbatim>\<open>terminate_on_match=True\<close> the text \<^verbatim>\<open>E=1 E=2\<close> and the pattern \<^verbatim>\<open>E=(\d+)\<close> should give
  the one Match Record \<^verbatim>\<open>['1']\<close> under the pattern's name, and the loop of lines 13 to 18
  would; the call raises NameError at line 12 and yields no result.
\<close>

theorem terminate_on_match_not_reached:
  "read_pattern py_re ''E=1 E=2'' [(''energy'', ''E=('' @ [backslash] @ ''d+)'')] True py_str
     = Inl (NameError ''collections'')
   \<and> scan_patterns py_re ''E=1 E=2'' True py_str
        [(''energy'', projr (re_compile py_re (''E=('' @ [backslash] @ ''d+)'') True True))] []
     = Inr [(''energy'', [[''1'']])]"
  by code_simp

section \<open>Properties of the spectrum plotter\<close>

subsection \<open>A spectrum without coordinates\<close>

lemma check_attributes_xy:
  "check_attributes sp ''xy'' =
     (if sp_x sp = None then Some (missing_attribute sp ''x'')
      else if sp_y sp = None then Some (missing_attribute sp ''y'')
      else None)"
  by (simp add: hasattr_def)

text \<open>
  C8. \<^verbatim>\<open>add_spectrum\<close> on an object that lacks the attribute \<^verbatim>\<open>x\<close> or the attribute \<^verbatim>\<open>y\<close> raises
  ValueError with a message that names the object's type and the missing attribute (\<^verbatim>\<open>x\<close>
  when both are missing), and leaves the plotter, its spectra and its colour list
  included, as it was.
\<close>

theorem add_spectrum_missing_attribute:
  assumes "sp_x sp = None \<or> sp_y sp = None"
  shows "add_spectrum self label sp color =
     (Some (ValueError (''spectrum of type='' @ sp_type sp @ '' missing required attribute=''
                         @ [CHR 0x27] @ (if sp_x sp = None then ''x'' else ''y'') @ [CHR 0x27])),
      self)"
proof (cases "sp_x sp = None")
  case True
  then have "check_attributes sp ''xy'' = Some (missing_attribute sp ''x'')"
    by (simp add: check_attributes_xy del: check_attributes.simps)
  with True show ?thesis
    by (simp add: add_spectrum_def missing_attribute_def del: check_attributes.simps)
next
  case False
  with assms have "sp_y sp = None" by simp
  with False have "check_attributes sp ''xy'' = Some (missing_attribute sp ''y'')"
    by (auto simp add: check_attributes_xy simp del: check_attributes.simps)
  with False show ?thesis
    by (simp add: add_spectrum_def missing_attribute_def del: check_attributes.simps)
qed

theorem add_spectrum_missing_attribute_witness:
  "sp_y \<lparr>sp_type = ''<class Dos>'', sp_x = Some [0, 1], sp_y = None,
          XLABEL = Some ''Energy'', YLABEL = Some ''Density''\<rparr> = None
   \<and> add_spectrum (init 0 0 False [ColorRGB 1 0 0]) ''total''
        \<lparr>sp_type = ''<class Dos>'', sp_x = Some [0, 1], sp_y = None,
          XLABEL = Some ''Energy'', YLABEL = Some ''Density''\<rparr> None
      = (Some (ValueError (''spectrum of type=<class Dos> missing required attribute='' @ [CHR 0x27] @ ''y'' @ [CHR 0x27])),
         init 0 0 False [ColorRGB 1 0 0])"
  using add_spectrum_missing_attribute[of "\<lparr>sp_type = ''<class Dos>'', sp_x = Some [0, 1], sp_y = None,
          XLABEL = Some ''Energy'', YLABEL = Some ''Density''\<rparr>" "init 0 0 False [ColorRGB 1 0 0]" "''total''" None]
  by simp

subsection \<open>Colours and labels\<close>

lemma dict_set_keys:
  "map fst (dict_set d k v) = (if k \<in> set (map fst d) then map fst d else map fst d @ [k])"
  by (induction d) (auto simp: dict_set_def)

lemma map_of_replace:
  "map_of (map (\<lambda>(k', v'). if k' = k then (k', v) else (k', v')) d) x =
     (if x = k then (if k \<in> set (map fst d) then Some v else None) else map_of d x)"
  by (induction d) (auto, force)

lemma dict_set_lookup:
  "map_of (dict_set d k v) = (map_of d)(k \<mapsto> v)"
proof (cases "k \<in> set (map fst d)")
  case True
  then show ?thesis by (simp add: dict_set_def map_of_replace fun_eq_iff)
next
  case False
  then have "map_of d k = None" by (simp add: map_of_eq_None_iff)
  with False show ?thesis by (auto simp: dict_set_def fun_eq_iff map_add_def split: option.splits)
qed

lemma add_spectrum_success:
  assumes "add_spectrum self label sp color = (None, self')"
  shows "spectra self' = dict_set (spectra self) label sp"
    and "\<exists>c. colors self' = colors self @ [c]"
    and "colors_cycle self' = colors_cycle self"
  using assms
  by (auto simp: add_spectrum_def Let_def split: option.splits sum.splits)

lemma add_all_state:
  "add_all self calls = (None, self') \<Longrightarrow> distinct (map fst (spectra self)) \<Longrightarrow>
   length (colors self') = length (colors self) + length calls
   \<and> distinct (map fst (spectra self'))
   \<and> set (map fst (spectra self')) = set (map fst (spectra self)) \<union> set (map fst calls)
   \<and> (\<forall>label. map_of (spectra self') label =
         (case last_added calls label of Some sp \<Rightarrow> Some sp | None \<Rightarrow> map_of (spectra self) label))"
proof (induction calls arbitrary: self)
  case Nil
  then show ?case by simp
next
  case (Cons call calls)
  obtain l sp c where call: "call = (l, sp, c)" by (cases call)
  from Cons.prems(1) call obtain self1 where
    one: "add_spectrum self l sp c = (None, self1)" and rest: "add_all self1 calls = (None, self')"
    by (auto split: prod.splits option.splits)
  note s1 = add_spectrum_success[OF one]
  have d1: "distinct (map fst (spectra self1))"
    using Cons.prems(2) by (simp add: s1(1) dict_set_keys)
  have k1: "set (map fst (spectra self1)) = insert l (set (map fst (spectra self)))"
    by (auto simp: s1(1) dict_set_keys)
  have m1: "map_of (spectra self1) = (map_of (spectra self))(l \<mapsto> sp)"
    by (simp add: s1(1) dict_set_lookup)
  from s1(2) have c1: "length (colors self1) = length (colors self) + 1" by auto
  from Cons.IH[OF rest d1] have
    ih1: "length (colors self') = length (colors self1) + length calls"
    and ih2: "distinct (map fst (spectra self'))"
    and ih3: "set (map fst (spectra self')) = set (map fst (spectra self1)) \<union> set (map fst calls)"
    and ih4: "\<And>label. map_of (spectra self') label =
         (case last_added calls label of Some sp \<Rightarrow> Some sp | None \<Rightarrow> map_of (spectra self1) label)"
    by auto
  have "\<And>label. map_of (spectra self') label =
         (case last_added (call # calls) label of Some sp \<Rightarrow> Some sp | None \<Rightarrow> map_of (spectra self) label)"
    by (simp add: ih4 m1 call split: option.splits)
  moreover have "set (map fst (spectra self')) = set (map fst (spectra self)) \<union> set (map fst (call # calls))"
    using ih3 k1 call by auto
  moreover have "length (colors self') = length (colors self) + length (call # calls)"
    using ih1 c1 by simp
  ultimately show ?case using ih2 by blast
qed

text \<open>
  C10. After \<open>n\<close> calls of \<^verbatim>\<open>add_spectrum\<close> on a new plotter, none of which raised, the colour
  list has \<open>n\<close> entries and the spectra have one entry per distinct label, holding the
  spectrum of the last call with that label: a call with a label already present
  replaces the spectrum and still appends a colour.
\<close>

theorem colors_append_only:
  assumes "add_all (init xs ys st mpl_colors) calls = (None, self)"
  shows "length (colors self) = length calls
       \<and> distinct (map fst (spectra self))
       \<and> set (map fst (spectra self)) = set (map fst calls)
       \<and> length (spectra self) = card (set (map fst calls))
       \<and> (\<forall>label. map_of (spectra self) label = last_added calls label)"
proof -
  have d0: "distinct (map fst (spectra (init xs ys st mpl_colors)))" by (simp add: init_def)
  from add_all_state[OF assms d0] have
    a: "length (colors self) = length calls"
    and b: "distinct (map fst (spectra self))"
    and c: "set (map fst (spectra self)) = set (map fst calls)"
    and d: "\<And>label. map_of (spectra self) label = last_added calls label"
    by (auto simp: init_def split: option.splits)
  from b c have "length (spectra self) = card (set (map fst calls))"
    using distinct_card[of "map fst (spectra self)"] by simp
  with a b c d show ?thesis by blast
qed

theorem colors_append_only_witness:
  "add_all (init 0 0 False [ColorRGB 1 0 0, ColorRGB 0 0 1])
     [(''total'', \<lparr>sp_type = ''<class Dos>'', sp_x = Some [0, 1], sp_y = Some [2, 3],
                    XLABEL = Some ''Energy'', YLABEL = Some ''Density''\<rparr>, None),
      (''total'', \<lparr>sp_type = ''<class Dos>'', sp_x = Some [0, 1], sp_y = Some [4, 5],
                    XLABEL = Some ''Energy'', YLABEL = Some ''Density''\<rparr>, Some (ColorStr ''k--''))]
   = (None, \<lparr>xshift = 0, yshift = 0, stack = False,
              colors_cycle = [ColorRGB 1 0 0, ColorRGB 0 0 1],
              colors = [ColorRGB 0 0 1, ColorStr ''k--''],
              spectra = [(''total'', \<lparr>sp_type = ''<class Dos>'', sp_x = Some [0, 1], sp_y = Some [4, 5],
                    XLABEL = Some ''Energy'', YLABEL = Some ''Density''\<rparr>)]\<rparr>)
   \<and> length [ColorRGB 0 0 1, ColorStr ''k--''] = (2::nat)
   \<and> card (set (map fst [(''total'', 0::nat), (''total'', 1)])) = (1::nat)"
proof -
  let ?s1 = "\<lparr>sp_type = ''<class Dos>'', sp_x = Some [0, 1], sp_y = Some [2, 3],
                    XLABEL = Some ''Energy'', YLABEL = Some ''Density''\<rparr>"
  let ?s2 = "\<lparr>sp_type = ''<class Dos>'', sp_x = Some [0, 1], sp_y = Some [4, 5],
                    XLABEL = Some ''Energy'', YLABEL = Some ''Density''\<rparr>"
  let ?p = "\<lparr>xshift = 0, yshift = 0, stack = False,
              colors_cycle = [ColorRGB 1 0 0, ColorRGB 0 0 1],
              colors = [ColorRGB 0 0 1, ColorStr ''k--''],
              spectra = [(''total'', ?s2)]\<rparr>"
  have run: "add_all (init 0 0 False [ColorRGB 1 0 0, ColorRGB 0 0 1])
     [(''total'', ?s1, None), (''total'', ?s2, Some (ColorStr ''k--''))] = (None, ?p)"
    by (simp add: add_spectrum_def init_def hasattr_def dict_set_def choose_color_def truthy_def)
  from colors_append_only[OF run] have "length (colors ?p) = 2" by simp
  with run show ?thesis by simp
qed

subsection \<open>The horizontal shift\<close>

text \<open>\<^verbatim>\<open>get_plot\<close> never reads \<^verbatim>\<open>self.xshift\<close>: its value changes nothing.\<close>

lemma draw_entry_xshift:
  "draw_entry (self\<lparr>xshift := d\<rparr>) idx key sp st = draw_entry self idx key sp st"
  by (simp add: draw_entry_def color_at_def)

lemma draw_entries_xshift:
  "draw_entries (self\<lparr>xshift := d\<rparr>) idx entries st = draw_entries self idx entries st"
proof (induction entries arbitrary: idx st)
  case Nil
  then show ?case by simp
next
  case (Cons e entries)
  obtain key sp where "e = (key, sp)" by (cases e)
  with Cons.IH show ?case
    by (simp add: draw_entry_xshift bind_err_def split: sum.splits)
qed

lemma get_plot_xshift:
  "get_plot (self\<lparr>xshift := d\<rparr>) xl yl = get_plot self xl yl"
  by (simp add: get_plot_def draw_entries_xshift)

text \<open>
  C3. The docstring of \<^verbatim>\<open>__init__\<close> says of \<^verbatim>\<open>xshift\<close> that it is applied to the x values, the
  same for all spectra. With \<^verbatim>\<open>xshift=1\<close> and \<^verbatim>\<open>yshift=10\<close>, two spectra on the x values
  \<^verbatim>\<open>[0, 1]\<close> are drawn on \<^verbatim>\<open>[0, 1]\<close>, not on \<^verbatim>\<open>[1, 2]\<close>; the y values of the entry at position
  1 are shifted by \<^verbatim>\<open>10 * 1\<close>.
\<close>

theorem get_plot_leaves_x_unshifted:
  "get_plot (snd (add_all (init 1 10 False [ColorRGB 1 0 0, ColorRGB 0 0 1])
       [(''s'', \<lparr>sp_type = ''<class Dos>'', sp_x = Some [0, 1], sp_y = Some [2, 3],
                 XLABEL = Some ''Energy'', YLABEL = Some ''Density''\<rparr>, None),
        (''p'', \<lparr>sp_type = ''<class Dos>'', sp_x = Some [0, 1], sp_y = Some [4, 5],
                 XLABEL = Some ''Energy'', YLABEL = Some ''Density''\<rparr>, None)])) None None
   = Inr \<lparr>artists = [Line [0, 1] [2, 3] (ColorRGB 0 0 1) ''s'' 3,
                      Line [0, 1] [14, 15] (ColorRGB 1 0 0) ''p'' 3],
          xlabel = Some ''Energy'', ylabel = Some ''Density'', xlim = None, ylim = None\<rparr>"
  by (simp add: add_spectrum_def init_def hasattr_def dict_set_def choose_color_def truthy_def
        get_plot_def draw_entry_def bind_err_def getattr_def color_at_def pretty_plot_def
        ax_plot_def check_color_def rgb_color_def)

subsection \<open>Stacking\<close>






end
